theory Spec2Isabelle
  imports Main
begin

section \<open>Data model (shop/models.py)\<close>

text \<open>
  A \<open>DecimalField(max_digits=10, decimal_places=2)\<close> value is a fixed-point decimal with
  two fractional digits. It is represented by its number of hundredths, an \<open>int\<close>:
  9.99 is 999. Multiplying such a decimal by an integer and adding two of them keep the
  exponent at -2 and act on the hundredths as integer multiplication and addition.
  Timestamps are counted in microseconds, the resolution of a Python datetime.
  Python integers are unbounded, hence \<open>int\<close> for quantities and stock.
\<close>

record User =
  user_id :: nat
  username :: string
  email :: string
  password :: string
  groups :: "string list"

record Product =
  product_id :: nat
  product_store :: nat
  product_name :: string
  price :: int
  stock_qty :: int
  is_active :: bool

record Order =
  order_id :: nat
  order_buyer :: nat

record OrderItem =
  item_order :: nat
  item_product :: nat
  item_store :: nat
  quantity :: int
  unit_price :: int

record ResetToken =
  token_id :: nat
  token_user :: nat
  token_hash :: string
  expiry_date :: int
  used :: bool

text \<open>\<open>OrderItem.line_total\<close>: \<open>self.unit_price * self.quantity\<close>.\<close>

definition line_total :: "OrderItem \<Rightarrow> int" where
  "line_total item = unit_price item * quantity item"

text \<open>\<open>ResetToken.is_expired\<close>: \<open>timezone.now() > self.expiry_date\<close>; the clock is a parameter.\<close>

definition is_expired :: "int \<Rightarrow> ResetToken \<Rightarrow> bool" where
  "is_expired now rt = (now > expiry_date rt)"

section \<open>The record store, the session and the responses\<close>

text \<open>
  The tables are lists of rows. Every write of the views is committed when it is made:
  no view opens a transaction.
\<close>

record db =
  users :: "User list"
  products :: "Product list"
  orders :: "Order list"
  order_items :: "OrderItem list"
  reset_tokens :: "ResetToken list"
  next_order_id :: nat
  next_token_id :: nat

text \<open>
  The session holds the cart, a dict from \<open>str(product.id)\<close> to a quantity, and the reset
  binding. A Python dict keeps its keys in insertion order, so the cart is an association
  list with distinct keys; a key is kept as the product id it prints (\<open>int(str(i)) = i\<close>).
  An absent session key is \<open>None\<close>.
\<close>

record session =
  cart :: "(nat \<times> int) list option"
  reset_user_id :: "nat option"
  reset_token_hash :: "string option"

datatype cval =
    CStr string
  | CBool bool
  | CInt int
  | COrder Order
  | CItems "OrderItem list"

datatype response =
    Render string "(string \<times> cval) list"
  | Redirect string
  | Forbidden string
  | NotFound
  | ServerError string

text \<open>
  A mail handed to \<open>EmailMessage(...).send(fail_silently=True)\<close>. The invoice keeps the
  order id, the buyer's name, one entry per item with its line total, the grand total and
  the recipient; the reset mail keeps the user's name, the raw token of the link and the
  recipient.
\<close>

datatype mail =
    InvoiceMail nat string "(OrderItem \<times> int) list" int string
  | ResetMail string string string

record outcome =
  response :: response
  db_after :: db
  session_after :: session
  sent :: "mail list"

text \<open>
  \<open>Model.objects.get(...)\<close>: the one row that satisfies the filter; \<open>DoesNotExist\<close> when
  there is none and \<open>MultipleObjectsReturned\<close> when there are several.
\<close>

datatype 'a lookup = DoesNotExist | Found 'a | MultipleObjectsReturned

definition objects_get :: "('a \<Rightarrow> bool) \<Rightarrow> 'a list \<Rightarrow> 'a lookup" where
  "objects_get P rows =
     (case filter P rows of
        [] \<Rightarrow> DoesNotExist
      | [x] \<Rightarrow> Found x
      | _ \<Rightarrow> MultipleObjectsReturned)"

text \<open>Python dict operations on the association list.\<close>

fun dict_get :: "('k \<times> 'v) list \<Rightarrow> 'k \<Rightarrow> 'v \<Rightarrow> 'v" where
  "dict_get [] k dflt = dflt"
| "dict_get ((k', v') # rest) k dflt = (if k' = k then v' else dict_get rest k dflt)"

fun dict_set :: "('k \<times> 'v) list \<Rightarrow> 'k \<Rightarrow> 'v \<Rightarrow> ('k \<times> 'v) list" where
  "dict_set [] k v = [(k, v)]"
| "dict_set ((k', v') # rest) k v =
     (if k' = k then (k, v) # rest else (k', v') # dict_set rest k v)"

definition dict_pop :: "('k \<times> 'v) list \<Rightarrow> 'k \<Rightarrow> ('k \<times> 'v) list" where
  "dict_pop d k = filter (\<lambda>kv. fst kv \<noteq> k) d"

section \<open>Cart (shop/views.py)\<close>

definition get_cart :: "session \<Rightarrow> (nat \<times> int) list" where
  "get_cart s = (case cart s of None \<Rightarrow> [] | Some c \<Rightarrow> c)"

definition save_cart :: "session \<Rightarrow> (nat \<times> int) list \<Rightarrow> session" where
  "save_cart s c = s\<lparr>cart := Some c\<rparr>"

definition get_active_product :: "db \<Rightarrow> nat \<Rightarrow> Product lookup" where
  "get_active_product d pid =
     objects_get (\<lambda>p. product_id p = pid \<and> is_active p) (products d)"

definition cart_add :: "nat \<Rightarrow> db \<Rightarrow> session \<Rightarrow> outcome" where
  "cart_add pid d s =
     (case get_active_product d pid of
        DoesNotExist \<Rightarrow> \<lparr>response = NotFound, db_after = d, session_after = s, sent = []\<rparr>
      | MultipleObjectsReturned \<Rightarrow>
          \<lparr>response = ServerError ''MultipleObjectsReturned'', db_after = d,
           session_after = s, sent = []\<rparr>
      | Found product \<Rightarrow>
          (let c = get_cart s;
               key = product_id product;
               c' = dict_set c key (dict_get c key 0 + 1)
           in \<lparr>response = Redirect ''cart'', db_after = d,
               session_after = save_cart s c', sent = []\<rparr>))"

definition cart_remove :: "nat \<Rightarrow> db \<Rightarrow> session \<Rightarrow> outcome" where
  "cart_remove pid d s =
     (let c = get_cart s
      in if pid \<in> fst ` set c
         then \<lparr>response = Redirect ''cart'', db_after = d,
               session_after = save_cart s (dict_pop c pid), sent = []\<rparr>
         else \<lparr>response = Redirect ''cart'', db_after = d, session_after = s, sent = []\<rparr>)"

section \<open>Checkout (shop/views.py)\<close>

definition is_buyer :: "User \<Rightarrow> bool" where
  "is_buyer u = (''Buyers'' \<in> set (groups u))"

text \<open>\<open>Order.objects.create(buyer=request.user)\<close>: the new row has the next free id.\<close>

definition create_order :: "db \<Rightarrow> User \<Rightarrow> Order \<times> db" where
  "create_order d u =
     (let order = \<lparr>order_id = next_order_id d, order_buyer = user_id u\<rparr>
      in (order, d\<lparr>orders := orders d @ [order], next_order_id := Suc (next_order_id d)\<rparr>))"

text \<open>\<open>product.save()\<close>: the row with the product's primary key takes the object's fields.\<close>

definition save_product :: "db \<Rightarrow> Product \<Rightarrow> db" where
  "save_product d p =
     d\<lparr>products := map (\<lambda>q. if product_id q = product_id p then p else q) (products d)\<rparr>"

definition create_order_item :: "db \<Rightarrow> OrderItem \<Rightarrow> db" where
  "create_order_item d item = d\<lparr>order_items := order_items d @ [item]\<rparr>"

definition not_enough_stock :: "Product \<Rightarrow> response" where
  "not_enough_stock product =
     Render ''shop/cart.html''
       [(''error'', CStr (''Not enough stock for '' @ product_name product @ ''.''))]"

text \<open>
  The loop over \<open>cart.items()\<close>. A line whose product is missing or inactive raises
  \<open>Http404\<close>; a line that asks for more than the stock returns the error page. Both leave
  the loop with the store as the earlier lines wrote it.
\<close>

fun checkout_lines ::
  "Order \<Rightarrow> (nat \<times> int) list \<Rightarrow> db \<Rightarrow> OrderItem list \<Rightarrow> (response + OrderItem list) \<times> db"
where
  "checkout_lines order [] d lines = (Inr lines, d)"
| "checkout_lines order ((pid, qty) # rest) d lines =
     (case get_active_product d pid of
        DoesNotExist \<Rightarrow> (Inl NotFound, d)
      | MultipleObjectsReturned \<Rightarrow> (Inl (ServerError ''MultipleObjectsReturned''), d)
      | Found product \<Rightarrow>
          if stock_qty product < qty then (Inl (not_enough_stock product), d)
          else
            (let product' = product\<lparr>stock_qty := stock_qty product - qty\<rparr>;
                 d1 = save_product d product';
                 item = \<lparr>item_order = order_id order, item_product = product_id product',
                         item_store = product_store product', quantity = qty,
                         unit_price = price product'\<rparr>;
                 d2 = create_order_item d1 item
             in checkout_lines order rest d2 (lines @ [item])))"

text \<open>The invoice loop: \<open>grand_total = 0\<close>, then \<open>grand_total += item.line_total()\<close> per item.\<close>

fun invoice_lines ::
  "OrderItem list \<Rightarrow> int \<Rightarrow> (OrderItem \<times> int) list \<Rightarrow> int \<times> (OrderItem \<times> int) list"
where
  "invoice_lines [] grand_total body = (grand_total, body)"
| "invoice_lines (item # rest) grand_total body =
     (let lt = line_total item
      in invoice_lines rest (grand_total + lt) (body @ [(item, lt)]))"

definition invoice :: "Order \<Rightarrow> User \<Rightarrow> OrderItem list \<Rightarrow> mail" where
  "invoice order u lines =
     (case invoice_lines lines 0 [] of
        (grand_total, body) \<Rightarrow>
          InvoiceMail (order_id order) (username u) body grand_total (email u))"

text \<open>
  \<open>checkout\<close>, behind \<open>login_required\<close>: the request's user is \<open>None\<close> for an anonymous
  request.
\<close>

definition checkout :: "User option \<Rightarrow> db \<Rightarrow> session \<Rightarrow> outcome" where
  "checkout ru d s =
     (case ru of
        None \<Rightarrow> \<lparr>response = Redirect ''/login/'', db_after = d, session_after = s, sent = []\<rparr>
      | Some u \<Rightarrow>
          if \<not> is_buyer u
          then \<lparr>response = Forbidden ''Buyers only.'', db_after = d, session_after = s,
                sent = []\<rparr>
          else
            (let c = get_cart s
             in if c = []
                then \<lparr>response = Render ''shop/cart.html''
                                   [(''items'', CItems []), (''total'', CInt 0),
                                    (''error'', CStr ''Cart is empty.'')],
                      db_after = d, session_after = s, sent = []\<rparr>
                else
                  (case create_order d u of
                     (order, d0) \<Rightarrow>
                       (case checkout_lines order c d0 [] of
                          (Inl r, d') \<Rightarrow>
                            \<lparr>response = r, db_after = d', session_after = s, sent = []\<rparr>
                        | (Inr lines, d') \<Rightarrow>
                            \<lparr>response = Render ''shop/checkout_success.html''
                                          [(''order'', COrder order), (''items'', CItems lines)],
                             db_after = d',
                             session_after = save_cart s [],
                             sent = (if email u \<noteq> [] then [invoice order u lines]
                                     else [])\<rparr>))))"

section \<open>Password reset (shop/views.py)\<close>

text \<open>
  \<open>str.strip()\<close> on the characters of ASCII: it drops the white space at both ends.
\<close>

definition is_space :: "char \<Rightarrow> bool" where
  "is_space c = (let n = (of_char c :: nat) in (9 \<le> n \<and> n \<le> 13) \<or> (28 \<le> n \<and> n \<le> 32))"

definition strip :: "string \<Rightarrow> string" where
  "strip s = rev (dropWhile is_space (rev (dropWhile is_space s)))"

text \<open>\<open>timedelta(minutes=10)\<close> in microseconds.\<close>

definition ten_minutes :: int where
  "ten_minutes = 600000000"

text \<open>
  \<open>ResetToken.objects.create(...)\<close>: \<open>token_hash\<close> is declared \<open>unique=True\<close>, so a hash
  that is already stored is refused (\<open>IntegrityError\<close>, here \<open>None\<close>).
\<close>

definition create_reset_token :: "db \<Rightarrow> User \<Rightarrow> string \<Rightarrow> int \<Rightarrow> db option" where
  "create_reset_token d u h expiry =
     (if h \<in> token_hash ` set (reset_tokens d) then None
      else Some (d\<lparr>reset_tokens := reset_tokens d @
                      [\<lparr>token_id = next_token_id d, token_user = user_id u, token_hash = h,
                        expiry_date = expiry, used = False\<rparr>],
                   next_token_id := Suc (next_token_id d)\<rparr>))"

text \<open>\<open>rt.delete()\<close>, \<open>rt.save()\<close> and \<open>user.save()\<close> act on the row with the object's primary key.\<close>

definition delete_token :: "db \<Rightarrow> ResetToken \<Rightarrow> db" where
  "delete_token d rt =
     d\<lparr>reset_tokens := filter (\<lambda>t. token_id t \<noteq> token_id rt) (reset_tokens d)\<rparr>"

definition save_token :: "db \<Rightarrow> ResetToken \<Rightarrow> db" where
  "save_token d rt =
     d\<lparr>reset_tokens := map (\<lambda>t. if token_id t = token_id rt then rt else t) (reset_tokens d)\<rparr>"

definition save_user :: "db \<Rightarrow> User \<Rightarrow> db" where
  "save_user d u = d\<lparr>users := map (\<lambda>v. if user_id v = user_id u then u else v) (users d)\<rparr>"

text \<open>
  \<open>user.set_password(password)\<close>: the stored credential is the one that authenticates
  exactly this password; the field holds the password it stands for.
\<close>

definition set_password :: "User \<Rightarrow> string \<Rightarrow> User" where
  "set_password u pw = u\<lparr>password := pw\<rparr>"

text \<open>
  \<open>forgot_password\<close>. The parameters are the hash \<open>sha1(...).hexdigest()\<close>, the request
  method, the posted email, the value drawn by \<open>secrets.token_urlsafe(16)\<close> and the clock.
\<close>

definition forgot_password ::
  "(string \<Rightarrow> string) \<Rightarrow> string \<Rightarrow> string \<Rightarrow> string \<Rightarrow> int \<Rightarrow> db \<Rightarrow> session \<Rightarrow> outcome"
where
  "forgot_password sha1 method post_email raw_token now d s =
     (if method = ''GET''
      then \<lparr>response = Render ''shop/forgot_password.html'' [], db_after = d,
            session_after = s, sent = []\<rparr>
      else
        (let em = strip post_email
         in if em = []
            then \<lparr>response = Render ''shop/forgot_password.html''
                               [(''error'', CStr ''Email required.'')],
                  db_after = d, session_after = s, sent = []\<rparr>
            else
              (case objects_get (\<lambda>u. email u = em) (users d) of
                 DoesNotExist \<Rightarrow>
                   \<lparr>response = Render ''shop/forgot_password.html''
                                 [(''error'', CStr ''No user with that email.'')],
                    db_after = d, session_after = s, sent = []\<rparr>
               | MultipleObjectsReturned \<Rightarrow>
                   \<lparr>response = ServerError ''MultipleObjectsReturned'', db_after = d,
                    session_after = s, sent = []\<rparr>
               | Found user \<Rightarrow>
                   (let h = sha1 raw_token;
                        expiry = now + ten_minutes
                    in case create_reset_token d user h expiry of
                         None \<Rightarrow>
                           \<lparr>response = ServerError ''IntegrityError'', db_after = d,
                            session_after = s, sent = []\<rparr>
                       | Some d' \<Rightarrow>
                           \<lparr>response = Render ''shop/forgot_password.html''
                                         [(''message'',
                                           CStr ''Reset email sent (check console output).'')],
                            db_after = d', session_after = s,
                            sent = [ResetMail (username user) raw_token (email user)]\<rparr>))))"

definition token_invalid :: response where
  "token_invalid =
     Render ''shop/reset_password.html''
       [(''error'', CStr ''Token invalid or expired.''), (''valid'', CBool False)]"

definition reset_password_page ::
  "(string \<Rightarrow> string) \<Rightarrow> string \<Rightarrow> int \<Rightarrow> db \<Rightarrow> session \<Rightarrow> outcome"
where
  "reset_password_page sha1 token now d s =
     (let h = sha1 token
      in case objects_get (\<lambda>t. token_hash t = h \<and> \<not> used t) (reset_tokens d) of
           MultipleObjectsReturned \<Rightarrow>
             \<lparr>response = ServerError ''MultipleObjectsReturned'', db_after = d,
              session_after = s, sent = []\<rparr>
         | DoesNotExist \<Rightarrow>
             \<lparr>response = token_invalid, db_after = d, session_after = s, sent = []\<rparr>
         | Found rt \<Rightarrow>
             if is_expired now rt
             then \<lparr>response = token_invalid, db_after = delete_token d rt,
                   session_after = s, sent = []\<rparr>
             else \<lparr>response = Render ''shop/reset_password.html'' [(''valid'', CBool True)],
                   db_after = d,
                   session_after = s\<lparr>reset_user_id := Some (token_user rt),
                                      reset_token_hash := Some h\<rparr>,
                   sent = []\<rparr>)"

definition passwords_do_not_match :: response where
  "passwords_do_not_match =
     Render ''shop/reset_password.html''
       [(''error'', CStr ''Passwords do not match.''), (''valid'', CBool True)]"

definition token_expired :: response where
  "token_expired =
     Render ''shop/reset_password.html''
       [(''error'', CStr ''Token expired.''), (''valid'', CBool False)]"

text \<open>
  \<open>reset_password_confirm\<close>. A session key that is absent reads as Python's \<open>None\<close>, and a
  lookup by \<open>id=None\<close> or \<open>token_hash=None\<close> matches no row.
\<close>

definition reset_password_confirm ::
  "string \<Rightarrow> string \<Rightarrow> string \<Rightarrow> int \<Rightarrow> db \<Rightarrow> session \<Rightarrow> outcome"
where
  "reset_password_confirm method pw pw_conf now d s =
     (if method \<noteq> ''POST''
      then \<lparr>response = Redirect ''login'', db_after = d, session_after = s, sent = []\<rparr>
      else if pw = [] \<or> pw \<noteq> pw_conf
      then \<lparr>response = passwords_do_not_match, db_after = d, session_after = s, sent = []\<rparr>
      else
        (case objects_get (\<lambda>u. Some (user_id u) = reset_user_id s) (users d) of
           DoesNotExist \<Rightarrow>
             \<lparr>response = NotFound, db_after = d, session_after = s, sent = []\<rparr>
         | MultipleObjectsReturned \<Rightarrow>
             \<lparr>response = ServerError ''MultipleObjectsReturned'', db_after = d,
              session_after = s, sent = []\<rparr>
         | Found user \<Rightarrow>
             (case objects_get (\<lambda>t. Some (token_hash t) = reset_token_hash s \<and> \<not> used t)
                     (reset_tokens d) of
                DoesNotExist \<Rightarrow>
                  \<lparr>response = NotFound, db_after = d, session_after = s, sent = []\<rparr>
              | MultipleObjectsReturned \<Rightarrow>
                  \<lparr>response = ServerError ''MultipleObjectsReturned'', db_after = d,
                   session_after = s, sent = []\<rparr>
              | Found rt \<Rightarrow>
                  if is_expired now rt
                  then \<lparr>response = token_expired, db_after = delete_token d rt,
                        session_after = s, sent = []\<rparr>
                  else
                    (let d1 = save_user d (set_password user pw);
                         d2 = save_token d1 (rt\<lparr>used := True\<rparr>)
                     in \<lparr>response = Redirect ''login'', db_after = d2,
                         session_after = s\<lparr>reset_user_id := None,
                                            reset_token_hash := None\<rparr>,
                         sent = []\<rparr>))))"



section \<open>Observers and sample data\<close>

text \<open>A checkout has succeeded when it answers with the success page.\<close>

definition checkout_succeeded :: "outcome \<Rightarrow> bool" where
  "checkout_succeeded out =
     (case response out of
        Render template ctx \<Rightarrow> template = ''shop/checkout_success.html''
      | _ \<Rightarrow> False)"

text \<open>A buyer, a store with two products in stock, and sessions used in the examples.\<close>

definition demo_buyer :: User where
  "demo_buyer = \<lparr>user_id = 1, username = ''bob'', email = ''bob@example.com'',
                  password = ''old'', groups = [''Buyers'']\<rparr>"

definition demo_db :: db where
  "demo_db =
     \<lparr>users = [demo_buyer],
      products =
        [\<lparr>product_id = 1, product_store = 1, product_name = ''pen'', price = 999,
          stock_qty = 3, is_active = True\<rparr>,
         \<lparr>product_id = 2, product_store = 1, product_name = ''ink'', price = 250,
          stock_qty = 5, is_active = True\<rparr>],
      orders = [], order_items = [], reset_tokens = [],
      next_order_id = 1, next_token_id = 1\<rparr>"

definition empty_session :: session where
  "empty_session = \<lparr>cart = None, reset_user_id = None, reset_token_hash = None\<rparr>"

definition two_line_session :: session where
  "two_line_session = \<lparr>cart = Some [(1, 2), (2, 9)], reset_user_id = None, reset_token_hash = None\<rparr>"



definition two_pens_one_ink_session :: session where
  "two_pens_one_ink_session =
     \<lparr>cart = Some [(1, 2), (2, 1)], reset_user_id = None, reset_token_hash = None\<rparr>"

text \<open>
  In the examples \<open>demo_hash\<close> stands for \<open>sha1(...).hexdigest()\<close>; the examples only need
  that it sends the two raw tokens they use to different hashes.
\<close>

definition demo_hash :: "string \<Rightarrow> string" where
  "demo_hash raw = ''#'' @ raw"

definition issued_db :: db where
  "issued_db =
     db_after (forgot_password demo_hash ''POST'' ''bob@example.com'' ''tok'' 0 demo_db empty_session)"

definition bound_session :: session where
  "bound_session = session_after (reset_password_page demo_hash ''tok'' 1 issued_db empty_session)"


definition redeemed_db :: db where
  "redeemed_db =
     db_after (reset_password_confirm ''POST'' ''new'' ''new'' 5 issued_db bound_session)"

section \<open>The checkout loop\<close>



lemma objects_get_Found:
  "objects_get P rows = Found x \<Longrightarrow> P x \<and> x \<in> set rows"
proof -
  assume a: "objects_get P rows = Found x"
  then have "filter P rows = [x]"
    by (auto simp: objects_get_def split: list.splits)
  then have "x \<in> set (filter P rows)" by simp
  then show ?thesis by simp
qed

lemma checkout_lines_Inl:
  "checkout_lines order c d lines = (Inl r, d') \<Longrightarrow>
   r = NotFound \<or> r = ServerError ''MultipleObjectsReturned'' \<or> (\<exists>p. r = not_enough_stock p)"
  by (induction order c d lines rule: checkout_lines.induct)
     (auto split: lookup.splits if_splits simp: Let_def)




lemma invoice_lines_sum:
  "invoice_lines lines acc body =
     (acc + sum_list (map line_total lines),
      body @ map (\<lambda>it. (it, unit_price it * quantity it)) lines)"
  by (induction lines arbitrary: acc body) (simp_all add: Let_def line_total_def)

lemma checkout_success_lines:
  assumes "response (checkout ru d s) =
             Render ''shop/checkout_success.html''
               [(''order'', COrder order), (''items'', CItems lines)]"
  shows "\<exists>u. ru = Some u \<and> is_buyer u \<and> get_cart s \<noteq> [] \<and>
             checkout_lines order (get_cart s) (snd (create_order d u)) [] =
               (Inr lines, db_after (checkout ru d s)) \<and>
             order = fst (create_order d u) \<and>
             session_after (checkout ru d s) = save_cart s [] \<and>
             sent (checkout ru d s) = (if email u \<noteq> [] then [invoice order u lines] else [])"
proof (cases ru)
  case None
  with assms show ?thesis by (simp add: checkout_def)
next
  case (Some u)
  show ?thesis
  proof (cases "is_buyer u \<and> get_cart s \<noteq> []")
    case False
    with Some assms show ?thesis by (auto simp: checkout_def Let_def split: if_splits)
  next
    case True
    obtain order0 d0 where co: "create_order d u = (order0, d0)" by (cases "create_order d u")
    obtain res d' where cl: "checkout_lines order0 (get_cart s) d0 [] = (res, d')"
      by (cases "checkout_lines order0 (get_cart s) d0 []")
    show ?thesis
    proof (cases res)
      case (Inl r)
      with cl have "r = NotFound \<or> r = ServerError ''MultipleObjectsReturned'' \<or>
                    (\<exists>p. r = not_enough_stock p)"
        using checkout_lines_Inl by blast
      moreover from Some True co cl Inl have "response (checkout ru d s) = r"
        by (simp add: checkout_def Let_def)
      ultimately show ?thesis using assms by (auto simp: not_enough_stock_def)
    next
      case (Inr lines0)
      with Some True co cl assms show ?thesis
        by (simp add: checkout_def Let_def)
    qed
  qed
qed

lemmas checkout_eval =
  checkout_def is_buyer_def get_cart_def save_cart_def create_order_def get_active_product_def
  objects_get_def save_product_def create_order_item_def not_enough_stock_def Let_def
  checkout_succeeded_def cart_add_def invoice_def line_total_def





section \<open>Order of the cart lines\<close>






section \<open>Line totals and the invoice\<close>

lemma line_total_bound:
  assumes "\<bar>unit_price it\<bar> < 10 ^ 10" and "0 \<le> quantity it" and "quantity it \<le> 2147483647"
  shows "\<bar>line_total it\<bar> < 10 ^ 28"
proof -
  have "\<bar>line_total it\<bar> = \<bar>unit_price it\<bar> * quantity it"
    using assms(2) by (simp add: line_total_def abs_mult)
  also have "\<dots> \<le> \<bar>unit_price it\<bar> * 2147483647"
    using assms(3) by (simp add: mult_left_mono)
  also have "\<dots> \<le> 10 ^ 10 * 2147483647"
    using assms(1) by simp
  also have "\<dots> < (10 ^ 28 :: int)" by simp
  finally show ?thesis .
qed

text \<open>
  Claim C8. The line total of an OrderItem is its unit price times its quantity, as a
  number of hundredths; with a price of at most 10 digits and a quantity within a
  \<open>PositiveIntegerField\<close> the product stays below the 28 digits a decimal holds without
  rounding. The invoice of a successful checkout lists each item with that line total and
  reports as grand total the sum of the line totals of the order's items.
\<close>

theorem invoice_totals:
  assumes "response (checkout (Some u) d s) =
             Render ''shop/checkout_success.html''
               [(''order'', COrder order), (''items'', CItems lines)]"
      and "email u \<noteq> []"
  shows "sent (checkout (Some u) d s) =
           [InvoiceMail (order_id order) (username u)
              (map (\<lambda>it. (it, unit_price it * quantity it)) lines)
              (sum_list (map line_total lines)) (email u)] \<and>
         (\<forall>it \<in> set lines. line_total it = unit_price it * quantity it) \<and>
         (\<forall>it \<in> set lines.
            \<bar>unit_price it\<bar> < 10 ^ 10 \<and> 0 \<le> quantity it \<and> quantity it \<le> 2147483647
            \<longrightarrow> \<bar>line_total it\<bar> < 10 ^ 28)"
proof -
  from checkout_success_lines[OF assms(1)] assms(2)
  have "sent (checkout (Some u) d s) = [invoice order u lines]" by auto
  then have "sent (checkout (Some u) d s) =
           [InvoiceMail (order_id order) (username u)
              (map (\<lambda>it. (it, unit_price it * quantity it)) lines)
              (sum_list (map line_total lines)) (email u)]"
    by (simp add: invoice_def invoice_lines_sum)
  moreover have "\<forall>it \<in> set lines. line_total it = unit_price it * quantity it"
    by (simp add: line_total_def)
  moreover have "\<forall>it \<in> set lines.
            \<bar>unit_price it\<bar> < 10 ^ 10 \<and> 0 \<le> quantity it \<and> quantity it \<le> 2147483647
            \<longrightarrow> \<bar>line_total it\<bar> < 10 ^ 28"
    using line_total_bound by blast
  ultimately show ?thesis by blast
qed

theorem invoice_totals_witness:
  "response (checkout (Some demo_buyer) demo_db two_pens_one_ink_session) =
     Render ''shop/checkout_success.html''
       [(''order'', COrder \<lparr>order_id = 1, order_buyer = 1\<rparr>),
        (''items'', CItems
           [\<lparr>item_order = 1, item_product = 1, item_store = 1, quantity = 2, unit_price = 999\<rparr>,
            \<lparr>item_order = 1, item_product = 2, item_store = 1, quantity = 1, unit_price = 250\<rparr>])] \<and>
   email demo_buyer \<noteq> [] \<and>
   sent (checkout (Some demo_buyer) demo_db two_pens_one_ink_session) =
     [InvoiceMail 1 ''bob''
        [(\<lparr>item_order = 1, item_product = 1, item_store = 1, quantity = 2, unit_price = 999\<rparr>, 1998),
         (\<lparr>item_order = 1, item_product = 2, item_store = 1, quantity = 1, unit_price = 250\<rparr>, 250)]
        2248 ''bob@example.com''] \<and>
   line_total \<lparr>item_order = 1, item_product = 1, item_store = 1, quantity = 2, unit_price = 999\<rparr>
     = 1998"
proof -
  let ?lines = "[\<lparr>item_order = 1, item_product = 1, item_store = 1, quantity = 2, unit_price = 999\<rparr>,
            \<lparr>item_order = 1, item_product = 2, item_store = 1, quantity = 1, unit_price = 250\<rparr>]"
  have h1: "response (checkout (Some demo_buyer) demo_db two_pens_one_ink_session) =
     Render ''shop/checkout_success.html''
       [(''order'', COrder \<lparr>order_id = 1, order_buyer = 1\<rparr>), (''items'', CItems ?lines)]"
    by (simp add: checkout_eval demo_db_def demo_buyer_def two_pens_one_ink_session_def)
  have h2: "email demo_buyer \<noteq> []" by (simp add: demo_buyer_def)
  from invoice_totals[OF h1 h2] h1 h2 show ?thesis
    by (simp add: line_total_def demo_buyer_def)
qed

section \<open>The cart after a checkout\<close>

lemma dict_set_keeps_keys: "fst ` set c \<subseteq> fst ` set (dict_set c k v)"
proof (induction c)
  case Nil
  then show ?case by simp
next
  case (Cons a c)
  obtain k' v' where a: "a = (k', v')" by (cases a)
  from Cons.IH a show ?case by (cases "k' = k") (simp_all add: subset_insertI2)
qed

lemma checkout_session_cases:
  "(checkout_succeeded (checkout ru d s) \<and> session_after (checkout ru d s) = save_cart s []) \<or>
   (\<not> checkout_succeeded (checkout ru d s) \<and> session_after (checkout ru d s) = s)"
proof (cases ru)
  case None
  then show ?thesis by (simp add: checkout_def checkout_succeeded_def)
next
  case (Some u)
  show ?thesis
  proof (cases "is_buyer u \<and> get_cart s \<noteq> []")
    case False
    with Some show ?thesis
      by (auto simp: checkout_def checkout_succeeded_def Let_def)
  next
    case True
    obtain order0 d0 where co: "create_order d u = (order0, d0)" by (cases "create_order d u")
    obtain res d' where cl: "checkout_lines order0 (get_cart s) d0 [] = (res, d')"
      by (cases "checkout_lines order0 (get_cart s) d0 []")
    show ?thesis
    proof (cases res)
      case (Inl r)
      with cl have "r = NotFound \<or> r = ServerError ''MultipleObjectsReturned'' \<or>
                    (\<exists>p. r = not_enough_stock p)"
        using checkout_lines_Inl by blast
      with Some True co cl Inl show ?thesis
        by (auto simp: checkout_def checkout_succeeded_def Let_def not_enough_stock_def)
    next
      case (Inr lines0)
      with Some True co cl show ?thesis
        by (simp add: checkout_def checkout_succeeded_def Let_def)
    qed
  qed
qed

text \<open>
  Claim C9. A checkout that succeeds stores the empty cart in the session; a checkout
  that does not succeed, whatever the reason, leaves the session as it was. Apart from
  that, \<open>cart_remove\<close> drops the line of the product it names and no other, and
  \<open>cart_add\<close> drops none.
\<close>

theorem cart_cleared_only_on_success:
  "(checkout_succeeded (checkout ru d s) \<longrightarrow>
      session_after (checkout ru d s) = s\<lparr>cart := Some []\<rparr>) \<and>
   (\<not> checkout_succeeded (checkout ru d s) \<longrightarrow> session_after (checkout ru d s) = s) \<and>
   get_cart (session_after (cart_remove pid d s)) = filter (\<lambda>kv. fst kv \<noteq> pid) (get_cart s) \<and>
   fst ` set (get_cart s) \<subseteq> fst ` set (get_cart (session_after (cart_add pid d s)))"
proof -
  from checkout_session_cases[of ru d s]
  have "(checkout_succeeded (checkout ru d s) \<longrightarrow>
           session_after (checkout ru d s) = s\<lparr>cart := Some []\<rparr>) \<and>
        (\<not> checkout_succeeded (checkout ru d s) \<longrightarrow> session_after (checkout ru d s) = s)"
    by (auto simp: save_cart_def)
  moreover have "get_cart (session_after (cart_remove pid d s)) =
                 filter (\<lambda>kv. fst kv \<noteq> pid) (get_cart s)"
  proof (cases "pid \<in> fst ` set (get_cart s)")
    case True
    then show ?thesis
      by (simp add: cart_remove_def Let_def save_cart_def dict_pop_def get_cart_def)
  next
    case False
    then have "filter (\<lambda>kv. fst kv \<noteq> pid) (get_cart s) = get_cart s"
      by (auto simp: filter_id_conv)
    with False show ?thesis by (simp add: cart_remove_def Let_def)
  qed
  moreover have "fst ` set (get_cart s) \<subseteq> fst ` set (get_cart (session_after (cart_add pid d s)))"
  proof (cases "get_active_product d pid")
    case (Found p)
    then show ?thesis
      using dict_set_keeps_keys[of "get_cart s" "product_id p" "dict_get (get_cart s) (product_id p) 0 + 1"]
      by (simp add: cart_add_def Let_def save_cart_def get_cart_def)
  qed (simp_all add: cart_add_def)
  ultimately show ?thesis by blast
qed

theorem cart_cleared_only_on_success_witness:
  "checkout_succeeded (checkout (Some demo_buyer) demo_db two_pens_one_ink_session) \<and>
   session_after (checkout (Some demo_buyer) demo_db two_pens_one_ink_session) =
     two_pens_one_ink_session\<lparr>cart := Some []\<rparr> \<and>
   \<not> checkout_succeeded (checkout (Some demo_buyer) demo_db two_line_session) \<and>
   session_after (checkout (Some demo_buyer) demo_db two_line_session) = two_line_session"
proof -
  have h1: "checkout_succeeded (checkout (Some demo_buyer) demo_db two_pens_one_ink_session)"
    by (simp add: checkout_eval demo_db_def demo_buyer_def two_pens_one_ink_session_def)
  have h2: "\<not> checkout_succeeded (checkout (Some demo_buyer) demo_db two_line_session)"
    by (simp add: checkout_eval demo_db_def demo_buyer_def two_line_session_def)
  from cart_cleared_only_on_success[of "Some demo_buyer" demo_db two_pens_one_ink_session 1] h1
  have c1: "session_after (checkout (Some demo_buyer) demo_db two_pens_one_ink_session) =
     two_pens_one_ink_session\<lparr>cart := Some []\<rparr>" by blast
  from cart_cleared_only_on_success[of "Some demo_buyer" demo_db two_line_session 1] h2
  have c2: "session_after (checkout (Some demo_buyer) demo_db two_line_session) = two_line_session"
    by blast
  from h1 h2 c1 c2 show ?thesis by blast
qed

section \<open>Password reset: lookups and the confirmation step\<close>

lemmas reset_eval =
  forgot_password_def reset_password_page_def reset_password_confirm_def objects_get_def
  create_reset_token_def delete_token_def save_token_def save_user_def set_password_def
  is_expired_def ten_minutes_def strip_def is_space_def Let_def token_invalid_def
  token_expired_def passwords_do_not_match_def demo_hash_def demo_db_def demo_buyer_def
  empty_session_def

lemma filter_unique:
  assumes "distinct (map f rows)"
      and "\<And>x y. x \<in> set rows \<Longrightarrow> y \<in> set rows \<Longrightarrow> P x \<Longrightarrow> P y \<Longrightarrow> f x = f y"
  shows "filter P rows = [] \<or> (\<exists>x. filter P rows = [x])"
  using assms
proof (induction rows)
  case Nil
  then show ?case by simp
next
  case (Cons a rows)
  from Cons.prems have d: "distinct (map f rows)" and na: "f a \<notin> f ` set rows" by auto
  have ih: "filter P rows = [] \<or> (\<exists>x. filter P rows = [x])"
    using Cons.IH[OF d] Cons.prems(2) by auto
  show ?case
  proof (cases "P a")
    case False
    with ih show ?thesis by simp
  next
    case True
    have "filter P rows = []"
    proof (rule ccontr)
      assume "filter P rows \<noteq> []"
      then obtain y where y: "y \<in> set rows" "P y"
        by (metis filter_False)
      with Cons.prems(2)[of y a] True have fy: "f y = f a" by simp
      from y(1) have "f y \<in> f ` set rows" by (rule imageI)
      with fy na show False by simp
    qed
    with True show ?thesis by simp
  qed
qed

lemma objects_get_unique:
  assumes "distinct (map f rows)" and "x \<in> set rows" and "P x"
      and "\<And>y. y \<in> set rows \<Longrightarrow> P y \<Longrightarrow> f y = f x"
  shows "objects_get P rows = Found x"
proof -
  have same: "\<And>y z. y \<in> set rows \<Longrightarrow> z \<in> set rows \<Longrightarrow> P y \<Longrightarrow> P z \<Longrightarrow> f y = f z"
    using assms(4) by simp
  have mem: "x \<in> set (filter P rows)" using assms(2,3) by simp
  from filter_unique[OF assms(1) same]
  have "filter P rows = [] \<or> (\<exists>z. filter P rows = [z])" by blast
  then have "filter P rows = [x]"
  proof
    assume "filter P rows = []"
    with mem show ?thesis by (simp only: set_simps empty_iff)
  next
    assume "\<exists>z. filter P rows = [z]"
    then obtain z where z: "filter P rows = [z]" ..
    with mem have "x \<in> set [z]" by (simp only:)
    then have "z = x" by simp
    with z show ?thesis by simp
  qed
  then show ?thesis by (simp add: objects_get_def)
qed

lemma objects_get_none:
  "\<forall>y \<in> set rows. \<not> P y \<Longrightarrow> objects_get P rows = DoesNotExist"
  by (simp add: objects_get_def)

lemma objects_get_not_multiple:
  assumes "distinct (map f rows)"
      and "\<And>x y. x \<in> set rows \<Longrightarrow> y \<in> set rows \<Longrightarrow> P x \<Longrightarrow> P y \<Longrightarrow> f x = f y"
  shows "objects_get P rows \<noteq> MultipleObjectsReturned"
proof -
  from filter_unique[OF assms]
  have "filter P rows = [] \<or> (\<exists>x. filter P rows = [x])" .
  then show ?thesis by (auto simp: objects_get_def)
qed

text \<open>
  Claim C10, as the code has it. In \<open>reset_password_confirm\<close> the password check comes
  before the session binding is used: an empty password, or one that differs from its
  confirmation, gets the mismatch page whatever the binding is; a non-empty password equal
  to its confirmation with no bound user id or no bound token hash gets not-found. In both
  cases the store and the session are left as they were.
\<close>

theorem confirm_checks_passwords_before_binding:
  "(pw = [] \<or> pw \<noteq> pw_conf \<longrightarrow>
      reset_password_confirm ''POST'' pw pw_conf now d s =
        \<lparr>response = passwords_do_not_match, db_after = d, session_after = s, sent = []\<rparr>) \<and>
   (pw \<noteq> [] \<and> pw = pw_conf \<and> distinct (map user_id (users d)) \<and>
    (reset_user_id s = None \<or> reset_token_hash s = None) \<longrightarrow>
      reset_password_confirm ''POST'' pw pw_conf now d s =
        \<lparr>response = NotFound, db_after = d, session_after = s, sent = []\<rparr>)"
proof (intro conjI impI)
  assume "pw = [] \<or> pw \<noteq> pw_conf"
  then show "reset_password_confirm ''POST'' pw pw_conf now d s =
        \<lparr>response = passwords_do_not_match, db_after = d, session_after = s, sent = []\<rparr>"
    by (auto simp: reset_password_confirm_def)
next
  assume a: "pw \<noteq> [] \<and> pw = pw_conf \<and> distinct (map user_id (users d)) \<and>
    (reset_user_id s = None \<or> reset_token_hash s = None)"
  from a have p: "pw \<noteq> []" "pw_conf = pw" by auto
  have nm: "objects_get (\<lambda>u. Some (user_id u) = reset_user_id s) (users d) \<noteq> MultipleObjectsReturned"
  proof (rule objects_get_not_multiple[where f = user_id])
    from a show "distinct (map user_id (users d))" by blast
  next
    fix x y assume "Some (user_id x) = reset_user_id s" "Some (user_id y) = reset_user_id s"
    then show "user_id x = user_id y" by (metis option.inject)
  qed
  from a have "reset_user_id s = None \<or> reset_token_hash s = None" by simp
  then consider "reset_user_id s = None" | "reset_token_hash s = None" by auto
  then show "reset_password_confirm ''POST'' pw pw_conf now d s =
        \<lparr>response = NotFound, db_after = d, session_after = s, sent = []\<rparr>"
  proof cases
    case 1
    then have "objects_get (\<lambda>u. Some (user_id u) = reset_user_id s) (users d) = DoesNotExist"
      by (simp add: objects_get_none)
    with p show ?thesis by (simp add: reset_password_confirm_def)
  next
    case 2
    then have "objects_get (\<lambda>t. Some (token_hash t) = reset_token_hash s \<and> \<not> used t)
                 (reset_tokens d) = DoesNotExist"
      by (simp add: objects_get_none)
    with p nm show ?thesis
      by (simp add: reset_password_confirm_def split: lookup.splits)
  qed
qed

text \<open>
  Matching passwords alone do not lead to not-found: with both fields empty and no
  binding the answer is the mismatch page.
\<close>

theorem empty_matching_passwords_report_mismatch:
  "reset_user_id empty_session = None \<and> reset_token_hash empty_session = None \<and>
   response (reset_password_confirm ''POST'' [] [] 0 demo_db empty_session) =
     Render ''shop/reset_password.html''
       [(''error'', CStr ''Passwords do not match.''), (''valid'', CBool True)] \<and>
   response (reset_password_confirm ''POST'' [] [] 0 demo_db empty_session) \<noteq> NotFound"
  by (simp add: reset_password_confirm_def passwords_do_not_match_def empty_session_def)

theorem confirm_checks_passwords_before_binding_witness:
  "reset_password_confirm ''POST'' ''new'' ''other'' 0 demo_db empty_session =
     \<lparr>response = passwords_do_not_match, db_after = demo_db, session_after = empty_session,
      sent = []\<rparr> \<and>
   distinct (map user_id (users demo_db)) \<and> reset_user_id empty_session = None \<and>
   reset_password_confirm ''POST'' ''new'' ''new'' 0 demo_db empty_session =
     \<lparr>response = NotFound, db_after = demo_db, session_after = empty_session, sent = []\<rparr>"
proof -
  have h1: "''new'' = [] \<or> ''new'' \<noteq> ''other''" by simp
  have h2: "''new'' \<noteq> [] \<and> ''new'' = ''new'' \<and> distinct (map user_id (users demo_db)) \<and>
    (reset_user_id empty_session = None \<or> reset_token_hash empty_session = None)"
    by (simp add: demo_db_def empty_session_def)
  from confirm_checks_passwords_before_binding[of "''new''" "''other''" 0 demo_db empty_session] h1
  have c1: "reset_password_confirm ''POST'' ''new'' ''other'' 0 demo_db empty_session =
     \<lparr>response = passwords_do_not_match, db_after = demo_db, session_after = empty_session,
      sent = []\<rparr>" by blast
  from confirm_checks_passwords_before_binding[of "''new''" "''new''" 0 demo_db empty_session] h2
  have c2: "reset_password_confirm ''POST'' ''new'' ''new'' 0 demo_db empty_session =
     \<lparr>response = NotFound, db_after = demo_db, session_after = empty_session, sent = []\<rparr>"
    by blast
  from c1 c2 h2 show ?thesis by (simp add: empty_session_def)
qed

section \<open>Password reset: expiry and single use\<close>

lemma distinct_map_eq:
  "distinct (map f rows) \<Longrightarrow> x \<in> set rows \<Longrightarrow> y \<in> set rows \<Longrightarrow> f x = f y \<Longrightarrow> x = y"
  by (meson distinct_map inj_onD)

lemma token_lookup:
  assumes "distinct (map token_hash (reset_tokens d))" and "rt \<in> set (reset_tokens d)"
      and "token_hash rt = h"
  shows "objects_get (\<lambda>t. token_hash t = h \<and> \<not> used t) (reset_tokens d) =
           (if used rt then DoesNotExist else Found rt)"
proof (cases "used rt")
  case True
  have "\<forall>y \<in> set (reset_tokens d). \<not> (token_hash y = h \<and> \<not> used y)"
  proof
    fix y assume y: "y \<in> set (reset_tokens d)"
    show "\<not> (token_hash y = h \<and> \<not> used y)"
    proof
      assume "token_hash y = h \<and> \<not> used y"
      with assms(3) have "token_hash y = token_hash rt" "\<not> used y" by simp_all
      with distinct_map_eq[OF assms(1) y assms(2)] True show False by simp
    qed
  qed
  with True show ?thesis by (simp add: objects_get_none)
next
  case False
  have "objects_get (\<lambda>t. token_hash t = h \<and> \<not> used t) (reset_tokens d) = Found rt"
  proof (rule objects_get_unique[where f = token_hash])
    show "distinct (map token_hash (reset_tokens d))" by (rule assms(1))
    show "rt \<in> set (reset_tokens d)" by (rule assms(2))
    from False assms(3) show "token_hash rt = h \<and> \<not> used rt" by simp
    fix y assume "token_hash y = h \<and> \<not> used y"
    with assms(3) show "token_hash y = token_hash rt" by simp
  qed
  with False show ?thesis by simp
qed

lemma user_lookup:
  assumes "distinct (map user_id (users d))" and "u \<in> set (users d)"
  shows "objects_get (\<lambda>v. Some (user_id v) = Some (user_id u)) (users d) = Found u"
proof (rule objects_get_unique[where f = user_id])
  show "distinct (map user_id (users d))" by (rule assms(1))
  show "u \<in> set (users d)" by (rule assms(2))
  show "Some (user_id u) = Some (user_id u)" by simp
  fix y assume "Some (user_id y) = Some (user_id u)"
  then show "user_id y = user_id u" by simp
qed

lemma page_outcome:
  assumes "distinct (map token_hash (reset_tokens d))" and "rt \<in> set (reset_tokens d)"
      and "token_hash rt = sha1 raw"
  shows "reset_password_page sha1 raw now d s =
           (if used rt
            then \<lparr>response = token_invalid, db_after = d, session_after = s, sent = []\<rparr>
            else if is_expired now rt
            then \<lparr>response = token_invalid, db_after = delete_token d rt, session_after = s,
                  sent = []\<rparr>
            else \<lparr>response = Render ''shop/reset_password.html'' [(''valid'', CBool True)],
                  db_after = d,
                  session_after = s\<lparr>reset_user_id := Some (token_user rt),
                                     reset_token_hash := Some (sha1 raw)\<rparr>,
                  sent = []\<rparr>)"
  using token_lookup[OF assms]
  by (simp add: reset_password_page_def Let_def)

lemma confirm_outcome:
  assumes "distinct (map token_hash (reset_tokens d))" and "rt \<in> set (reset_tokens d)"
      and "reset_token_hash s = Some (token_hash rt)"
      and "distinct (map user_id (users d))" and "u \<in> set (users d)"
      and "reset_user_id s = Some (user_id u)" and "pw \<noteq> []"
  shows "reset_password_confirm ''POST'' pw pw now d s =
           (if used rt
            then \<lparr>response = NotFound, db_after = d, session_after = s, sent = []\<rparr>
            else if is_expired now rt
            then \<lparr>response = token_expired, db_after = delete_token d rt, session_after = s,
                  sent = []\<rparr>
            else \<lparr>response = Redirect ''login'',
                  db_after = save_token (save_user d (set_password u pw)) (rt\<lparr>used := True\<rparr>),
                  session_after = s\<lparr>reset_user_id := None, reset_token_hash := None\<rparr>,
                  sent = []\<rparr>)"
  using token_lookup[OF assms(1,2) refl] user_lookup[OF assms(4,5)] assms(3,6,7)
  by (simp add: reset_password_confirm_def Let_def)

lemma confirm_success_inv:
  assumes "response (reset_password_confirm ''POST'' pw pw_conf now d s) = Redirect ''login''"
  shows "\<exists>user rt.
           objects_get (\<lambda>t. Some (token_hash t) = reset_token_hash s \<and> \<not> used t)
             (reset_tokens d) = Found rt \<and>
           \<not> is_expired now rt \<and>
           db_after (reset_password_confirm ''POST'' pw pw_conf now d s) =
             save_token (save_user d (set_password user pw)) (rt\<lparr>used := True\<rparr>)"
  using assms
  by (auto simp: reset_password_confirm_def Let_def passwords_do_not_match_def
                 token_expired_def
           split: if_splits lookup.splits)

lemma confirm_users_unchanged:
  assumes "response (reset_password_confirm method pw pw_conf now d s) \<noteq> Redirect ''login''
           \<or> method \<noteq> ''POST''"
  shows "users (db_after (reset_password_confirm method pw pw_conf now d s)) = users d"
  using assms
  by (auto simp: reset_password_confirm_def Let_def delete_token_def
           split: if_splits lookup.splits)

text \<open>
  Claim C5, as the code has it. \<open>is_expired\<close> is \<open>now > expiry_date\<close>: for an unused token
  whose hash matches, a redemption attempted strictly after the expiry timestamp is
  refused as expired (and the token row deleted), and one attempted at the expiry
  timestamp or before it succeeds. This holds for the page that starts the redemption and
  for the confirmation that sets the password, marks the token used and clears the
  binding.
\<close>

theorem token_expiry_boundary:
  assumes "distinct (map token_hash (reset_tokens d))" and "rt \<in> set (reset_tokens d)"
      and "\<not> used rt"
  shows "(token_hash rt = sha1 raw \<longrightarrow>
            response (reset_password_page sha1 raw now d s) =
              (if expiry_date rt < now then token_invalid
               else Render ''shop/reset_password.html'' [(''valid'', CBool True)])) \<and>
         (reset_token_hash s = Some (token_hash rt) \<and> distinct (map user_id (users d)) \<and>
          u \<in> set (users d) \<and> reset_user_id s = Some (user_id u) \<and> pw \<noteq> [] \<longrightarrow>
            reset_password_confirm ''POST'' pw pw now d s =
              (if expiry_date rt < now
               then \<lparr>response = token_expired, db_after = delete_token d rt,
                     session_after = s, sent = []\<rparr>
               else \<lparr>response = Redirect ''login'',
                     db_after = save_token (save_user d (set_password u pw))
                                  (rt\<lparr>used := True\<rparr>),
                     session_after = s\<lparr>reset_user_id := None, reset_token_hash := None\<rparr>,
                     sent = []\<rparr>))"
proof (intro conjI impI)
  assume h: "token_hash rt = sha1 raw"
  from page_outcome[of d rt sha1 raw now s, OF assms(1,2) h]
       assms(3)
  show "response (reset_password_page sha1 raw now d s) =
              (if expiry_date rt < now then token_invalid
               else Render ''shop/reset_password.html'' [(''valid'', CBool True)])"
    by (simp add: is_expired_def)
next
  assume a: "reset_token_hash s = Some (token_hash rt) \<and> distinct (map user_id (users d)) \<and>
          u \<in> set (users d) \<and> reset_user_id s = Some (user_id u) \<and> pw \<noteq> []"
  then have b: "reset_token_hash s = Some (token_hash rt)" "distinct (map user_id (users d))"
    "u \<in> set (users d)" "reset_user_id s = Some (user_id u)" "pw \<noteq> []" by auto
  from confirm_outcome[OF assms(1,2) b, of now] assms(3)
  show "reset_password_confirm ''POST'' pw pw now d s =
              (if expiry_date rt < now
               then \<lparr>response = token_expired, db_after = delete_token d rt,
                     session_after = s, sent = []\<rparr>
               else \<lparr>response = Redirect ''login'',
                     db_after = save_token (save_user d (set_password u pw))
                                  (rt\<lparr>used := True\<rparr>),
                     session_after = s\<lparr>reset_user_id := None, reset_token_hash := None\<rparr>,
                     sent = []\<rparr>)"
    by (simp add: is_expired_def)
qed

text \<open>
  At the expiry timestamp itself the token is not expired: the token issued at time 0
  expires at 600000000, and a redemption at exactly that time is accepted by the page and
  sets the new password.
\<close>

theorem redemption_at_expiry_succeeds:
  "map expiry_date (reset_tokens issued_db) = [600000000] \<and>
   response (reset_password_page demo_hash ''tok'' 600000000 issued_db empty_session) =
     Render ''shop/reset_password.html'' [(''valid'', CBool True)] \<and>
   response (reset_password_confirm ''POST'' ''new'' ''new'' 600000000 issued_db bound_session) =
     Redirect ''login'' \<and>
   map password (users (db_after
     (reset_password_confirm ''POST'' ''new'' ''new'' 600000000 issued_db bound_session))) =
     [''new'']"
  by (simp add: issued_db_def bound_session_def reset_eval)

theorem token_expiry_boundary_witness:
  "distinct (map token_hash (reset_tokens issued_db)) \<and>
   reset_tokens issued_db ! 0 \<in> set (reset_tokens issued_db) \<and>
   \<not> used (reset_tokens issued_db ! 0) \<and>
   token_hash (reset_tokens issued_db ! 0) = demo_hash ''tok'' \<and>
   response (reset_password_page demo_hash ''tok'' 600000001 issued_db empty_session) =
     token_invalid \<and>
   response (reset_password_page demo_hash ''tok'' 599999999 issued_db empty_session) =
     Render ''shop/reset_password.html'' [(''valid'', CBool True)] \<and>
   reset_token_hash bound_session = Some (token_hash (reset_tokens issued_db ! 0)) \<and>
   distinct (map user_id (users issued_db)) \<and> demo_buyer \<in> set (users issued_db) \<and>
   reset_user_id bound_session = Some (user_id demo_buyer) \<and>
   response (reset_password_confirm ''POST'' ''new'' ''new'' 600000001 issued_db bound_session) =
     token_expired \<and>
   response (reset_password_confirm ''POST'' ''new'' ''new'' 599999999 issued_db bound_session) =
     Redirect ''login''"
proof -
  have tk: "reset_tokens issued_db =
     [\<lparr>token_id = 1, token_user = 1, token_hash = ''#tok'', expiry_date = 600000000,
       used = False\<rparr>]"
    by (simp add: issued_db_def reset_eval)
  have us: "users issued_db = [demo_buyer]"
    by (simp add: issued_db_def reset_eval)
  have bs: "bound_session =
     \<lparr>cart = None, reset_user_id = Some 1, reset_token_hash = Some ''#tok''\<rparr>"
    by (simp add: bound_session_def issued_db_def reset_eval)
  have h1: "distinct (map token_hash (reset_tokens issued_db))" by (simp add: tk)
  have h2: "reset_tokens issued_db ! 0 \<in> set (reset_tokens issued_db)" by (simp add: tk)
  have h3: "\<not> used (reset_tokens issued_db ! 0)" by (simp add: tk)
  have h4: "token_hash (reset_tokens issued_db ! 0) = demo_hash ''tok''"
    by (simp add: tk demo_hash_def)
  have h5: "reset_token_hash bound_session = Some (token_hash (reset_tokens issued_db ! 0)) \<and>
    distinct (map user_id (users issued_db)) \<and> demo_buyer \<in> set (users issued_db) \<and>
    reset_user_id bound_session = Some (user_id demo_buyer) \<and> ''new'' \<noteq> []"
    by (simp add: tk us bs demo_buyer_def)
  have e: "expiry_date (reset_tokens issued_db ! 0) = 600000000" by (simp add: tk)
  from token_expiry_boundary[OF h1 h2 h3, of demo_hash "''tok''" 600000001 empty_session
         demo_buyer "''new''"] h4 e
  have c1: "response (reset_password_page demo_hash ''tok'' 600000001 issued_db empty_session) =
     token_invalid"
    by simp
  from token_expiry_boundary[OF h1 h2 h3, of demo_hash "''tok''" 600000001 bound_session
         demo_buyer "''new''"] h5 e
  have c3: "response (reset_password_confirm ''POST'' ''new'' ''new'' 600000001 issued_db
               bound_session) = token_expired"
    by simp
  from token_expiry_boundary[OF h1 h2 h3, of demo_hash "''tok''" 599999999 empty_session
         demo_buyer "''new''"] h4 e
  have c2: "response (reset_password_page demo_hash ''tok'' 599999999 issued_db empty_session) =
     Render ''shop/reset_password.html'' [(''valid'', CBool True)]"
    by simp
  from token_expiry_boundary[OF h1 h2 h3, of demo_hash "''tok''" 599999999 bound_session
         demo_buyer "''new''"] h5 e
  have c4: "response (reset_password_confirm ''POST'' ''new'' ''new'' 599999999 issued_db
               bound_session) = Redirect ''login''"
    by simp
  from h1 h2 h3 h4 h5 c1 c2 c3 c4 show ?thesis by blast
qed

section \<open>Password reset: issuing tokens\<close>


text \<open>
  Claim C6. A reset token is single-use. A confirmation that succeeds found an unused,
  unexpired token under the bound hash and leaves that token in the table with
  \<open>used = True\<close>, so that no unused token with that hash remains. For a token that is
  used or past its expiry, the page presented with its raw value answers that the token
  is invalid and binds nothing, a confirmation bound to its hash does not succeed, and
  neither changes any user.
\<close>

theorem reset_token_single_use:
  assumes "distinct (map token_hash (reset_tokens d))"
  shows "(response (reset_password_confirm ''POST'' pw pw_conf now d s) = Redirect ''login'' \<longrightarrow>
            (\<exists>rt \<in> set (reset_tokens d).
               Some (token_hash rt) = reset_token_hash s \<and> \<not> used rt \<and> \<not> is_expired now rt \<and>
               rt\<lparr>used := True\<rparr> \<in>
                 set (reset_tokens (db_after (reset_password_confirm ''POST'' pw pw_conf now d s)))) \<and>
            (\<forall>t \<in> set (reset_tokens (db_after (reset_password_confirm ''POST'' pw pw_conf now d s))).
               Some (token_hash t) = reset_token_hash s \<longrightarrow> used t)) \<and>
         (t \<in> set (reset_tokens d) \<and> token_hash t = sha1 raw \<and> (used t \<or> is_expired now t) \<longrightarrow>
            response (reset_password_page sha1 raw now d s) = token_invalid \<and>
            users (db_after (reset_password_page sha1 raw now d s)) = users d \<and>
            session_after (reset_password_page sha1 raw now d s) = s) \<and>
         (t \<in> set (reset_tokens d) \<and> reset_token_hash s = Some (token_hash t) \<and>
          (used t \<or> is_expired now t) \<longrightarrow>
            response (reset_password_confirm ''POST'' pw pw_conf now d s) \<noteq> Redirect ''login'' \<and>
            users (db_after (reset_password_confirm ''POST'' pw pw_conf now d s)) = users d)"
proof (intro conjI impI)
  assume ok: "response (reset_password_confirm ''POST'' pw pw_conf now d s) = Redirect ''login''"
  from confirm_success_inv[OF ok] obtain user rt where
    g: "objects_get (\<lambda>t. Some (token_hash t) = reset_token_hash s \<and> \<not> used t)
          (reset_tokens d) = Found rt" and
    ne: "\<not> is_expired now rt" and
    da: "db_after (reset_password_confirm ''POST'' pw pw_conf now d s) =
           save_token (save_user d (set_password user pw)) (rt\<lparr>used := True\<rparr>)" by blast
  from objects_get_Found[OF g] have rt: "rt \<in> set (reset_tokens d)"
    "Some (token_hash rt) = reset_token_hash s" "\<not> used rt" by simp_all
  have tk: "reset_tokens (db_after (reset_password_confirm ''POST'' pw pw_conf now d s)) =
              map (\<lambda>t. if token_id t = token_id rt then rt\<lparr>used := True\<rparr> else t) (reset_tokens d)"
    by (simp add: da save_token_def save_user_def)
  from rt(1) have "rt\<lparr>used := True\<rparr> \<in>
      set (reset_tokens (db_after (reset_password_confirm ''POST'' pw pw_conf now d s)))"
    by (auto simp: tk image_iff intro!: bexI[of _ rt])
  with rt ne show "\<exists>rt \<in> set (reset_tokens d).
               Some (token_hash rt) = reset_token_hash s \<and> \<not> used rt \<and> \<not> is_expired now rt \<and>
               rt\<lparr>used := True\<rparr> \<in>
                 set (reset_tokens (db_after (reset_password_confirm ''POST'' pw pw_conf now d s)))"
    by blast
  show "\<forall>t \<in> set (reset_tokens (db_after (reset_password_confirm ''POST'' pw pw_conf now d s))).
               Some (token_hash t) = reset_token_hash s \<longrightarrow> used t"
  proof (intro ballI impI)
    fix t' assume m: "t' \<in> set (reset_tokens (db_after
                        (reset_password_confirm ''POST'' pw pw_conf now d s)))"
      and h: "Some (token_hash t') = reset_token_hash s"
    from m obtain t0 where t0: "t0 \<in> set (reset_tokens d)"
      "t' = (if token_id t0 = token_id rt then rt\<lparr>used := True\<rparr> else t0)"
      by (auto simp: tk)
    show "used t'"
    proof (cases "token_id t0 = token_id rt")
      case True
      with t0 show ?thesis by simp
    next
      case False
      with t0 h rt(2) have "token_hash t0 = token_hash rt"
        by (metis option.inject)
      from distinct_map_eq[OF assms t0(1) rt(1) this] False show ?thesis by simp
    qed
  qed
next
  assume a: "t \<in> set (reset_tokens d) \<and> token_hash t = sha1 raw \<and> (used t \<or> is_expired now t)"
  then have b: "t \<in> set (reset_tokens d)" "token_hash t = sha1 raw" "used t \<or> is_expired now t"
    by auto
  from page_outcome[of d t sha1 raw now s, OF assms b(1,2)] b(3)
  show "response (reset_password_page sha1 raw now d s) = token_invalid"
    and "users (db_after (reset_password_page sha1 raw now d s)) = users d"
    and "session_after (reset_password_page sha1 raw now d s) = s"
    by (auto simp: delete_token_def)
next
  assume a: "t \<in> set (reset_tokens d) \<and> reset_token_hash s = Some (token_hash t) \<and>
          (used t \<or> is_expired now t)"
  then have b: "t \<in> set (reset_tokens d)" "reset_token_hash s = Some (token_hash t)"
    "used t \<or> is_expired now t" by auto
  show nr: "response (reset_password_confirm ''POST'' pw pw_conf now d s) \<noteq> Redirect ''login''"
  proof
    assume ok: "response (reset_password_confirm ''POST'' pw pw_conf now d s) = Redirect ''login''"
    from confirm_success_inv[OF ok] obtain user rt where
      g: "objects_get (\<lambda>t. Some (token_hash t) = reset_token_hash s \<and> \<not> used t)
            (reset_tokens d) = Found rt" and
      ne: "\<not> is_expired now rt" by blast
    from objects_get_Found[OF g] have rt: "rt \<in> set (reset_tokens d)"
      "Some (token_hash rt) = reset_token_hash s" "\<not> used rt" by simp_all
    from rt(2) b(2) have "token_hash rt = token_hash t" by simp
    from distinct_map_eq[OF assms rt(1) b(1) this] rt(3) ne b(3) show False by simp
  qed
  from confirm_users_unchanged[of "''POST''" pw pw_conf now d s] nr
  show "users (db_after (reset_password_confirm ''POST'' pw pw_conf now d s)) = users d"
    by blast
qed

theorem reset_token_single_use_witness:
  "distinct (map token_hash (reset_tokens issued_db)) \<and>
   response (reset_password_confirm ''POST'' ''new'' ''new'' 5 issued_db bound_session) =
     Redirect ''login'' \<and>
   distinct (map token_hash (reset_tokens redeemed_db)) \<and>
   reset_tokens redeemed_db ! 0 \<in> set (reset_tokens redeemed_db) \<and>
   token_hash (reset_tokens redeemed_db ! 0) = demo_hash ''tok'' \<and>
   reset_token_hash bound_session = Some (token_hash (reset_tokens redeemed_db ! 0)) \<and>
   used (reset_tokens redeemed_db ! 0) \<and>
   response (reset_password_page demo_hash ''tok'' 6 redeemed_db empty_session) = token_invalid \<and>
   users (db_after (reset_password_page demo_hash ''tok'' 6 redeemed_db empty_session)) =
     users redeemed_db \<and>
   response (reset_password_confirm ''POST'' ''again'' ''again'' 6 redeemed_db bound_session) \<noteq>
     Redirect ''login'' \<and>
   users (db_after (reset_password_confirm ''POST'' ''again'' ''again'' 6 redeemed_db bound_session)) =
     users redeemed_db"
proof -
  have tk: "reset_tokens issued_db =
     [\<lparr>token_id = 1, token_user = 1, token_hash = ''#tok'', expiry_date = 600000000,
       used = False\<rparr>]"
    by (simp add: issued_db_def reset_eval)
  have bs: "bound_session =
     \<lparr>cart = None, reset_user_id = Some 1, reset_token_hash = Some ''#tok''\<rparr>"
    by (simp add: bound_session_def issued_db_def reset_eval)
  have rd: "reset_tokens redeemed_db =
     [\<lparr>token_id = 1, token_user = 1, token_hash = ''#tok'', expiry_date = 600000000,
       used = True\<rparr>]"
    by (simp add: redeemed_db_def bound_session_def issued_db_def reset_eval)
  have h1: "distinct (map token_hash (reset_tokens issued_db))" by (simp add: tk)
  have h2: "response (reset_password_confirm ''POST'' ''new'' ''new'' 5 issued_db bound_session) =
     Redirect ''login''"
    by (simp add: bound_session_def issued_db_def reset_eval)
  have h3: "distinct (map token_hash (reset_tokens redeemed_db))" by (simp add: rd)
  have h4: "reset_tokens redeemed_db ! 0 \<in> set (reset_tokens redeemed_db) \<and>
            token_hash (reset_tokens redeemed_db ! 0) = demo_hash ''tok'' \<and>
            (used (reset_tokens redeemed_db ! 0) \<or> is_expired 6 (reset_tokens redeemed_db ! 0))"
    by (simp add: rd demo_hash_def)
  have h5: "reset_tokens redeemed_db ! 0 \<in> set (reset_tokens redeemed_db) \<and>
            reset_token_hash bound_session = Some (token_hash (reset_tokens redeemed_db ! 0)) \<and>
            (used (reset_tokens redeemed_db ! 0) \<or> is_expired 6 (reset_tokens redeemed_db ! 0))"
    by (simp add: rd bs)
  from reset_token_single_use[OF h1, of "''new''" "''new''" 5 bound_session
         "reset_tokens redeemed_db ! 0" demo_hash "''tok''"] h2
  have c1: "\<forall>t \<in> set (reset_tokens redeemed_db).
      Some (token_hash t) = reset_token_hash bound_session \<longrightarrow> used t"
    unfolding redeemed_db_def by blast
  from c1 have h6: "used (reset_tokens redeemed_db ! 0)" by (simp add: rd bs)
  from reset_token_single_use[OF h3, of "''again''" "''again''" 6 empty_session
         "reset_tokens redeemed_db ! 0" demo_hash "''tok''"] h4
  have c2: "response (reset_password_page demo_hash ''tok'' 6 redeemed_db empty_session) =
              token_invalid \<and>
            users (db_after (reset_password_page demo_hash ''tok'' 6 redeemed_db empty_session)) =
              users redeemed_db"
    by blast
  from reset_token_single_use[OF h3, of "''again''" "''again''" 6 bound_session
         "reset_tokens redeemed_db ! 0" demo_hash "''tok''"] h5
  have c3: "response (reset_password_confirm ''POST'' ''again'' ''again'' 6 redeemed_db
              bound_session) \<noteq> Redirect ''login'' \<and>
            users (db_after (reset_password_confirm ''POST'' ''again'' ''again'' 6 redeemed_db
              bound_session)) = users redeemed_db"
    by blast
  from h1 h2 h3 h4 h5 h6 c2 c3 show ?thesis by blast
qed







end
